theory Spec2Isabelle
  imports Complex_Main "HOL-Library.Word"
begin

section \<open>plane\_seg\_ri: the robot interface of the plane segmentation node\<close>

text \<open>
  A shallow embedding of \<^verbatim>\<open>src/plane_seg_ros/src/plane_seg_ri.cpp\<close>.

  Conventions of the embedding:
  \<^item> \<^verbatim>\<open>float\<close> and \<^verbatim>\<open>double\<close> values are idealised as real numbers: rounding,
    overflow and underflow are not modelled, so nothing is stated here about how close a
    computed \<^verbatim>\<open>float\<close> is to the real number it stands for. The one libm domain error
    that the file can reach, \<^verbatim>\<open>asin\<close> outside \<open>[-1, 1]\<close>, is modelled: the result is
    \<open>None\<close> (a NaN), and a look direction made of it is \<open>None\<close> as well.
  \<^item> an unchecked \<^verbatim>\<open>operator[]\<close> on a \<^verbatim>\<open>std::vector\<close> is a checked read in the
    model: an index outside the vector is undefined behaviour in C++ and the fault
    \<open>OutOfRange\<close> here.
  \<^item> \<^verbatim>\<open>size_t\<close> values are natural numbers, with the wrap-around of \<open>0 - 1\<close> written out.
  \<^item> a publisher is a list of published messages, the external \<^verbatim>\<open>BlockFitter\<close> is a
    function from the request that the setters build to its result.
\<close>

subsection \<open>Faults\<close>

text \<open>\<open>OutOfRange\<close>: a read outside a vector.\<close>

datatype fault = OutOfRange

definition then_do :: "fault + 'a \<Rightarrow> ('a \<Rightarrow> fault + 'b) \<Rightarrow> fault + 'b" where
  "then_do m f = (case m of Inl e \<Rightarrow> Inl e | Inr v \<Rightarrow> f v)"

text \<open>\<^verbatim>\<open>v[i]\<close> on a \<^verbatim>\<open>std::vector\<close>.\<close>

definition subscript :: "'a list \<Rightarrow> nat \<Rightarrow> fault + 'a" where
  "subscript xs i = (if i < length xs then Inr (xs ! i) else Inl OutOfRange)"

text \<open>\<^verbatim>\<open>n - 1\<close> on a 64-bit \<^verbatim>\<open>size_t\<close>.\<close>

definition size_t_pred :: "nat \<Rightarrow> nat" where
  "size_t_pred n = (if n = 0 then 2 ^ 64 - 1 else n - 1)"

subsection \<open>Vectors (Eigen::Vector3f, pcl::PointXYZ, geometry\_msgs::Point)\<close>

type_synonym vec3 = "real \<times> real \<times> real"

definition zero3 :: vec3 where
  "zero3 = (0, 0, 0)"

definition UnitZ :: vec3 where
  "UnitZ = (0, 0, 1)"

fun cross :: "vec3 \<Rightarrow> vec3 \<Rightarrow> vec3" where
  "cross (a1, a2, a3) (b1, b2, b3) = (a2 * b3 - a3 * b2, a3 * b1 - a1 * b3, a1 * b2 - a2 * b1)"

fun dot :: "vec3 \<Rightarrow> vec3 \<Rightarrow> real" where
  "dot (a1, a2, a3) (b1, b2, b3) = a1 * b1 + a2 * b2 + a3 * b3"

definition squaredNorm :: "vec3 \<Rightarrow> real" where
  "squaredNorm v = dot v v"

fun scale3 :: "real \<Rightarrow> vec3 \<Rightarrow> vec3" where
  "scale3 k (a1, a2, a3) = (k * a1, k * a2, k * a3)"

text \<open>
  \<^verbatim>\<open>v.normalized()\<close> of Eigen 3.3 and later: the vector divided by its norm, and the
  vector itself when its squared norm is not positive. The squared norm is a real number
  here. In the source it is a \<^verbatim>\<open>float\<close>, which is zero or infinite for some vectors
  that are not zero; the length of the result is therefore not a subject of this
  embedding. For the zero vector the two agree: the result is the zero vector.
\<close>

definition normalized :: "vec3 \<Rightarrow> vec3" where
  "normalized v = (let z = squaredNorm v in if z > 0 then scale3 (1 / sqrt z) v else v)"

subsection \<open>The colour table\<close>

text \<open>The member \<^verbatim>\<open>colors_\<close>, as the constructor fills it (lines 85 to 113). A name cannot end
  in an underscore here, so the members \<^verbatim>\<open>colors_\<close>, \<^verbatim>\<open>result_\<close> and \<^verbatim>\<open>last_robot_pose_\<close>
  are written \<open>colors_m\<close>, \<open>result_m\<close> and \<open>last_robot_pose_m\<close>.\<close>

definition colors_m :: "real list" where
  "colors_m =
    [51 / 255, 160 / 255, 44 / 255,
     166 / 255, 206 / 255, 227 / 255,
     178 / 255, 223 / 255, 138 / 255,
     31 / 255, 120 / 255, 180 / 255,
     251 / 255, 154 / 255, 153 / 255,
     227 / 255, 26 / 255, 28 / 255,
     253 / 255, 191 / 255, 111 / 255,
     106 / 255, 61 / 255, 154 / 255,
     255 / 255, 127 / 255, 0 / 255,
     202 / 255, 178 / 255, 214 / 255,
     1, 0, 0,
     0, 1, 0,
     0, 0, 1,
     1, 1, 0,
     1, 0, 1,
     0, 1, 1,
     1 / 2, 1, 0,
     1, 1 / 2, 0,
     1 / 2, 0, 1,
     1, 0, 1 / 2,
     0, 1 / 2, 1,
     0, 1, 1 / 2,
     1, 1 / 2, 1 / 2,
     1 / 2, 1, 1 / 2,
     1 / 2, 1 / 2, 1,
     1 / 2, 1 / 2, 1,
     1 / 2, 1, 1 / 2,
     1 / 2, 1 / 2, 1]"

text \<open>
  The colour of hull \<open>i\<close>, as both publishing methods compute it:
  \<^verbatim>\<open>int nColor = i % (colors_.size() / 3);\<close>
  \<^verbatim>\<open>double r = colors_[nColor * 3] * 255.0;\<close> and so on for \<open>g\<close> and \<open>b\<close>.
\<close>

definition hullColor :: "nat \<Rightarrow> fault + (real \<times> real \<times> real)" where
  "hullColor i =
    (let nColor = i mod (length colors_m div 3) in
     then_do (subscript colors_m (nColor * 3)) (\<lambda>r0.
     then_do (subscript colors_m (nColor * 3 + 1)) (\<lambda>g0.
     then_do (subscript colors_m (nColor * 3 + 2)) (\<lambda>b0.
     Inr (r0 * 255, g0 * 255, b0 * 255)))))"

subsection \<open>The marker message\<close>

datatype ColorRGBA = ColorRGBA real real real real

datatype MarkerType = LINE_LIST

datatype MarkerAction = ADD

record Marker =
  frame_id :: string
  stamp :: "int \<times> int"
  ns :: string
  marker_id :: int
  marker_type :: "MarkerType option"
  action :: "MarkerAction option"
  position :: vec3
  orientation :: "real \<times> real \<times> real \<times> real"
  scale :: vec3
  color_a :: real
  points :: "vec3 list"
  colors :: "ColorRGBA list"
  frame_locked :: bool

text \<open>
  A default-constructed marker. The field \<open>stamp\<close> (and \<open>cloud_stamp\<close> below) holds the
  two arguments of \<^verbatim>\<open>ros::Time(secs, nsecs)\<close> as they are passed; what the constructor of
  \<^verbatim>\<open>ros::Time\<close> makes of them is not modelled.
\<close>

definition Marker0 :: Marker where
  "Marker0 = \<lparr>frame_id = [], stamp = (0, 0), ns = [], marker_id = 0, marker_type = None,
     action = None, position = zero3, orientation = (0, 0, 0, 0), scale = zero3, color_a = 0,
     points = [], colors = [], frame_locked = False\<rparr>"

text \<open>
  \<^verbatim>\<open>marker.colors.push_back(point_color); marker.points.push_back(point);\<close>
  with \<^verbatim>\<open>point_color = (r, g, b, 1.0)\<close>.
\<close>

definition rgba :: "real \<times> real \<times> real \<Rightarrow> ColorRGBA" where
  "rgba c = (case c of (r0, g0, b0) \<Rightarrow> ColorRGBA r0 g0 b0 1)"

definition push_vertex :: "real \<times> real \<times> real \<Rightarrow> vec3 \<Rightarrow> Marker \<Rightarrow> Marker" where
  "push_vertex c p m = m\<lparr>colors := colors m @ [rgba c], points := points m @ [p]\<rparr>"

subsection \<open>publishHullsAsMarkers\<close>

text \<open>
  The inner loop (lines 473 to 493):
  \<^verbatim>\<open>for(size_t j = 1; j < cloud_ptrs[i]->points.size(); j++)\<close>
  pushes \<^verbatim>\<open>points[j - 1]\<close> and then \<^verbatim>\<open>points[j]\<close>, each with the colour of the hull.
\<close>

function edgeLoop :: "vec3 list \<Rightarrow> real \<times> real \<times> real \<Rightarrow> nat \<Rightarrow> Marker \<Rightarrow> fault + Marker" where
  "edgeLoop pts c j m =
    (if j < length pts then
       then_do (subscript pts (size_t_pred j)) (\<lambda>p.
       then_do (subscript pts j) (\<lambda>q.
       edgeLoop pts c (j + 1) (push_vertex c q (push_vertex c p m))))
     else Inr m)"
  by pat_completeness auto
termination
  by (relation "measure (\<lambda>(pts, c, j, m). length pts - j)") auto

declare edgeLoop.simps [simp del]

text \<open>
  One round of the outer loop (lines 467 to 515): the colour, the inner loop, and the
  "start to end line", which reads \<^verbatim>\<open>points[0]\<close> and \<^verbatim>\<open>points[points.size() - 1]\<close>
  whatever the size of the hull.
\<close>

definition emitHull :: "nat \<Rightarrow> vec3 list \<Rightarrow> Marker \<Rightarrow> fault + Marker" where
  "emitHull i pts m =
    then_do (hullColor i) (\<lambda>c.
    then_do (edgeLoop pts c 1 m) (\<lambda>m1.
    then_do (subscript pts 0) (\<lambda>p.
    then_do (subscript pts (size_t_pred (length pts))) (\<lambda>q.
    Inr (push_vertex c q (push_vertex c p m1))))))"

text \<open>The outer loop, \<^verbatim>\<open>for(size_t i = 0; i < cloud_ptrs.size(); i++)\<close>, from index \<open>i\<close> on.\<close>

fun hullsLoop :: "nat \<Rightarrow> vec3 list list \<Rightarrow> Marker \<Rightarrow> fault + Marker" where
  "hullsLoop i [] m = Inr m"
| "hullsLoop i (pts # rest) m = then_do (emitHull i pts m) (hullsLoop (Suc i) rest)"

text \<open>The method returns the marker that it hands to \<^verbatim>\<open>hull_markers_pub_\<close>.\<close>

definition publishHullsAsMarkers :: "vec3 list list \<Rightarrow> int \<Rightarrow> int \<Rightarrow> fault + Marker" where
  "publishHullsAsMarkers cloud_ptrs secs nsecs =
    (let marker = Marker0\<lparr>frame_id := ''odom'', stamp := (secs, nsecs), ns := ''hull lines'',
           marker_id := 0, marker_type := Some LINE_LIST, action := Some ADD,
           position := (0, 0, 0), orientation := (0, 0, 0, 1),
           scale := (3 / 100, 3 / 100, 3 / 100), color_a := 1\<rparr>
     in then_do (hullsLoop 0 cloud_ptrs marker) (\<lambda>m. Inr (m\<lparr>frame_locked := True\<rparr>)))"

text \<open>
  A \<^verbatim>\<open>LINE_LIST\<close> marker draws one segment for each pair of consecutive entries of
  \<^verbatim>\<open>points\<close>: entries 0 and 1, entries 2 and 3, and so on.
\<close>

fun segments :: "'a list \<Rightarrow> ('a \<times> 'a) list" where
  "segments (p # q # rest) = (p, q) # segments rest"
| "segments _ = []"

text \<open>The segments of a closed hull, in the words of the specification.\<close>

definition hullEdges :: "vec3 list \<Rightarrow> (vec3 \<times> vec3) list" where
  "hullEdges pts = map (\<lambda>j. (pts ! (j - 1), pts ! j)) [1..<length pts]"

definition closingSegment :: "vec3 list \<Rightarrow> vec3 \<times> vec3" where
  "closingSegment pts = (pts ! 0, pts ! (length pts - 1))"

definition hullSegments :: "vec3 list \<Rightarrow> (vec3 \<times> vec3) list" where
  "hullSegments pts = hullEdges pts @ [closingSegment pts]"

text \<open>The entries that the two pushes of hull \<open>pts\<close> append to \<^verbatim>\<open>marker.points\<close>.\<close>

definition hullVertices :: "vec3 list \<Rightarrow> vec3 list" where
  "hullVertices pts =
     concat (map (\<lambda>j. [pts ! (j - 1), pts ! j]) [1..<length pts]) @ [pts ! 0, pts ! (length pts - 1)]"

subsection \<open>The palette, in the words of the specification\<close>

text \<open>
  The flat table read as a sequence of RGB triples, and the scaling by 255 that both
  publishing methods apply to a triple.
\<close>

definition palette :: "(real \<times> real \<times> real) list" where
  "palette = map (\<lambda>k. (colors_m ! (k * 3), colors_m ! (k * 3 + 1), colors_m ! (k * 3 + 2)))
     [0..<length colors_m div 3]"

definition times255 :: "real \<times> real \<times> real \<Rightarrow> real \<times> real \<times> real" where
  "times255 c = (case c of (r0, g0, b0) \<Rightarrow> (r0 * 255, g0 * 255, b0 * 255))"

text \<open>
  The colours that a list of hulls, the first of index \<open>i\<close>, contributes to a marker: two
  entries for each point of a hull, all of them the scaled palette entry of the hull.
\<close>

definition hullColours :: "nat \<Rightarrow> vec3 list list \<Rightarrow> ColorRGBA list" where
  "hullColours i hulls =
     concat (map (\<lambda>(k, pts). replicate (2 * length pts) (rgba (times255 (palette ! (k mod 28)))))
       (enumerate i hulls))"

subsection \<open>publishHullsAsCloud\<close>

text \<open>
  A \<^verbatim>\<open>pcl::PointXYZRGB\<close>: the position and the three 8-bit channels. Assigning a
  \<^verbatim>\<open>double\<close> to a \<^verbatim>\<open>uint8_t\<close> channel drops the fraction; the values assigned here
  lie between 0 and 255.
\<close>

datatype PointXYZRGB = PointXYZRGB vec3 "8 word" "8 word" "8 word"

definition uint8_of_double :: "real \<Rightarrow> 8 word" where
  "uint8_of_double d = word_of_int (if 0 \<le> d then \<lfloor>d\<rfloor> else \<lceil>d\<rceil>)"

text \<open>
  \<^verbatim>\<open>pcl::copyPointCloud\<close> copies the positions of hull \<open>i\<close>, the loop over \<open>j\<close> sets the
  three channels of every copied point, and \<^verbatim>\<open>combined_cloud += *cloud_rgb\<close> appends them.
\<close>

definition colourPoint :: "real \<times> real \<times> real \<Rightarrow> vec3 \<Rightarrow> PointXYZRGB" where
  "colourPoint c p =
    (case c of (r0, g0, b0) \<Rightarrow>
       PointXYZRGB p (uint8_of_double r0) (uint8_of_double g0) (uint8_of_double b0))"

fun cloudLoop :: "nat \<Rightarrow> vec3 list list \<Rightarrow> PointXYZRGB list \<Rightarrow> fault + PointXYZRGB list" where
  "cloudLoop i [] combined_cloud = Inr combined_cloud"
| "cloudLoop i (pts # rest) combined_cloud =
     then_do (hullColor i) (\<lambda>c.
       cloudLoop (Suc i) rest (combined_cloud @ map (colourPoint c) pts))"

record HullCloud =
  cloud_frame_id :: string
  cloud_stamp :: "int \<times> int"
  cloud_points :: "PointXYZRGB list"

definition publishHullsAsCloud :: "vec3 list list \<Rightarrow> int \<Rightarrow> int \<Rightarrow> fault + HullCloud" where
  "publishHullsAsCloud cloud_ptrs secs nsecs =
     then_do (cloudLoop 0 cloud_ptrs []) (\<lambda>combined_cloud.
       Inr \<lparr>cloud_frame_id = ''odom'', cloud_stamp = (secs, nsecs), cloud_points = combined_cloud\<rparr>)"

subsection \<open>Rotations and quaternions\<close>

text \<open>A 3 by 3 matrix, as its three columns; an isometry, as its linear part and its translation.\<close>

type_synonym mat3 = "vec3 \<times> vec3 \<times> vec3"

fun comp3 :: "vec3 \<Rightarrow> nat \<Rightarrow> real" where
  "comp3 (a1, a2, a3) n = (if n = 0 then a1 else if n = 1 then a2 else a3)"

fun coeff :: "mat3 \<Rightarrow> nat \<Rightarrow> nat \<Rightarrow> real" where
  "coeff (c0, c1, c2) row col = comp3 (if col = 0 then c0 else if col = 1 then c1 else c2) row"

definition Identity3 :: mat3 where
  "Identity3 = ((1, 0, 0), (0, 1, 0), (0, 0, 1))"

record Isometry3 =
  linear :: mat3
  translation :: vec3

definition Identity :: Isometry3 where
  "Identity = \<lparr>linear = Identity3, translation = (0, 0, 0)\<rparr>"

text \<open>A quaternion, in the order \<open>w x y z\<close>.\<close>

datatype Quaternion = Quaternion real real real real

text \<open>
  The conversion \<^verbatim>\<open>Eigen::Quaternion(matrix)\<close>, after Eigen's implementation: the branch
  on the trace, and otherwise on the largest diagonal coefficient.
\<close>

definition quaternionOfMatrix :: "mat3 \<Rightarrow> Quaternion" where
  "quaternionOfMatrix mat =
    (let t = coeff mat 0 0 + coeff mat 1 1 + coeff mat 2 2 in
     if t > 0 then
       (let t1 = sqrt (t + 1); t2 = (1 / 2) / t1 in
        Quaternion ((1 / 2) * t1)
          ((coeff mat 2 1 - coeff mat 1 2) * t2)
          ((coeff mat 0 2 - coeff mat 2 0) * t2)
          ((coeff mat 1 0 - coeff mat 0 1) * t2))
     else
       (let i0 = (if coeff mat 1 1 > coeff mat 0 0 then 1 else 0);
            i = (if coeff mat 2 2 > coeff mat i0 i0 then 2 else i0);
            j = (i + 1) mod 3;
            k = (j + 1) mod 3;
            t1 = sqrt (coeff mat i i - coeff mat j j - coeff mat k k + 1);
            t2 = (1 / 2) / t1;
            v = (\<lambda>n. if n = i then (1 / 2) * t1
                     else if n = j then (coeff mat j i + coeff mat i j) * t2
                     else (coeff mat k i + coeff mat i k) * t2)
        in Quaternion ((coeff mat k j - coeff mat j k) * t2) (v 0) (v 1) (v 2)))"

subsection \<open>quat\_to\_euler and convertRobotPoseToSensorLookDir\<close>

text \<open>
  \<^verbatim>\<open>asin\<close> of libm: a NaN, here \<open>None\<close>, outside \<open>[-1, 1]\<close>. \<^verbatim>\<open>atan2\<close> of libm is
  defined for every pair of finite arguments.
\<close>

definition c_asin :: "real \<Rightarrow> real option" where
  "c_asin v = (if - 1 \<le> v \<and> v \<le> 1 then Some (arcsin v) else None)"

definition atan2 :: "real \<Rightarrow> real \<Rightarrow> real" where
  "atan2 v u =
    (if u > 0 then arctan (v / u)
     else if u < 0 \<and> v \<ge> 0 then arctan (v / u) + pi
     else if u < 0 then arctan (v / u) - pi
     else if v > 0 then pi / 2
     else if v < 0 then - (pi / 2)
     else 0)"

text \<open>Lines 134 to 142. The result is \<open>(roll, pitch, yaw)\<close>; the pitch may be a NaN.\<close>

fun quat_to_euler :: "Quaternion \<Rightarrow> real \<times> real option \<times> real" where
  "quat_to_euler (Quaternion q0 q1 q2 q3) =
    (atan2 (2 * (q0 * q1 + q2 * q3)) (1 - 2 * (q1 * q1 + q2 * q2)),
     c_asin (2 * (q0 * q2 - q3 * q1)),
     atan2 (2 * (q0 * q3 + q1 * q2)) (1 - 2 * (q2 * q2 + q3 * q3)))"

text \<open>
  Lines 150 to 162. \<^verbatim>\<open>robot_pose.rotation()\<close> of an isometry is its linear part. When the
  pitch is a NaN, so are the three components of the direction: the result is \<open>None\<close>.
\<close>

definition convertRobotPoseToSensorLookDir :: "Isometry3 \<Rightarrow> vec3 option" where
  "convertRobotPoseToSensorLookDir robot_pose =
    (let quat = quaternionOfMatrix (linear robot_pose) in
     case quat_to_euler quat of (r0, p0, y0) \<Rightarrow>
       (case p0 of
          None \<Rightarrow> None
        | Some p1 \<Rightarrow>
            (let yaw = y0; pitch = - p1;
                 xDir = cos yaw * cos pitch;
                 yDir = sin yaw * cos pitch;
                 zDir = sin pitch
             in Some (xDir, yDir, zDir))))"

subsection \<open>The segmentation engine and the state of the interface\<close>

text \<open>A \<^verbatim>\<open>planeseg::LabeledCloud\<close>: points with a 32-bit label.\<close>

type_synonym LabeledCloud = "(vec3 \<times> 32 word) list"

text \<open>
  \<^verbatim>\<open>planeseg::BlockFitter::Block\<close> and \<^verbatim>\<open>Result\<close>, with the members that this file reads.
\<close>

record Block =
  mSize :: vec3
  mPose :: Isometry3
  mHull :: "vec3 list"

record Result =
  mBlocks :: "Block list"

text \<open>
  What \<^verbatim>\<open>processCloud\<close> sets on the fitter before \<^verbatim>\<open>fitter.go()\<close>: the sensor pose,
  the cloud, the debug flag, the ground removal flag and the maximum angle of the plane
  segmenter. The engine itself is a function of this request. The look direction of a
  request is \<open>None\<close> when its components are NaN.
\<close>

record FitterRequest =
  mOrigin :: vec3
  mLookDir :: "vec3 option"
  mCloud :: LabeledCloud
  mDebug :: bool
  mRemoveGround :: bool
  mMaxAngleOfPlaneSegmenter :: real

type_synonym BlockFitter = "FitterRequest \<Rightarrow> Result"

text \<open>
  The messages of the four publishers of the class. \<open>Look_pose_NaN\<close> is the message of
  \<^verbatim>\<open>look_pose_pub_\<close> in a cycle whose look direction is NaN: its position is the origin
  and every entry of its rotation is NaN.
\<close>

datatype Message =
    Look_pose Isometry3
  | Look_pose_NaN vec3
  | Received_cloud LabeledCloud
  | Hull_cloud HullCloud
  | Hull_markers Marker

text \<open>
  The members of \<^verbatim>\<open>RobotInterface\<close> that change, and two traces of its effects: the
  requests handed to the engine and the messages published, oldest first.
\<close>

record RobotInterface =
  last_robot_pose_m :: Isometry3
  result_m :: Result
  fitter_calls :: "FitterRequest list"
  published :: "Message list"

text \<open>The constructor (lines 67 to 114); \<^verbatim>\<open>result_\<close> is default-constructed.\<close>

definition RobotInterface_new :: RobotInterface where
  "RobotInterface_new =
     \<lparr>last_robot_pose_m = Identity, result_m = \<lparr>mBlocks = []\<rparr>, fitter_calls = [], published = []\<rparr>"

text \<open>
  \<^verbatim>\<open>robotPoseCallBack\<close>: the pose of the message, converted by \<^verbatim>\<open>tf::poseMsgToEigen\<close>,
  replaces the cached pose.
\<close>

definition robotPoseCallBack :: "RobotInterface \<Rightarrow> Isometry3 \<Rightarrow> RobotInterface" where
  "robotPoseCallBack this pose = this\<lparr>last_robot_pose_m := pose\<rparr>"

subsection \<open>processCloud and publishResult\<close>

text \<open>
  The rotation of the look pose (lines 293 to 299), over the real numbers. The source
  computes the two cross products and the three normalisations in \<^verbatim>\<open>float\<close>; see the
  remark at \<open>normalized\<close>.
\<close>

definition lookRotation :: "vec3 \<Rightarrow> mat3" where
  "lookRotation lookDir =
    (let rz = lookDir;
         rx = cross rz UnitZ;
         ry = cross rz rx
     in (normalized rx, normalized ry, normalized rz))"

text \<open>Lines 371 to 398: the hulls of the stored blocks, published as a cloud and as markers.\<close>

definition publishResult :: "RobotInterface \<Rightarrow> fault + RobotInterface" where
  "publishResult this =
    (let cloud_ptrs = map mHull (mBlocks (result_m this)) in
     then_do (publishHullsAsCloud cloud_ptrs 0 0) (\<lambda>output.
     then_do (publishHullsAsMarkers cloud_ptrs 0 0) (\<lambda>marker.
     Inr (this\<lparr>published := published this @ [Hull_cloud output, Hull_markers marker]\<rparr>))))"

text \<open>Lines 278 to 319.\<close>

definition processCloud ::
  "BlockFitter \<Rightarrow> RobotInterface \<Rightarrow> LabeledCloud \<Rightarrow> vec3 \<Rightarrow> vec3 \<Rightarrow> fault + RobotInterface" where
  "processCloud go this inCloud origin lookDir =
    (let fitter = \<lparr>mOrigin = origin, mLookDir = Some lookDir, mCloud = inCloud, mDebug = True,
           mRemoveGround = False, mMaxAngleOfPlaneSegmenter = 10\<rparr>;
         this1 = this\<lparr>result_m := go fitter, fitter_calls := fitter_calls this @ [fitter]\<rparr>;
         pose = \<lparr>linear = lookRotation lookDir, translation = origin\<rparr>;
         this2 = this1\<lparr>published := published this1 @ [Look_pose pose]\<rparr>;
         this3 = this2\<lparr>published := published this2 @ [Received_cloud inCloud]\<rparr>
     in publishResult this3)"

text \<open>
  The same lines 278 to 319 when every component of \<^verbatim>\<open>lookDir\<close> is NaN. The fitter gets
  the NaN direction. Both cross products are NaN in every component, \<^verbatim>\<open>normalized()\<close>
  returns them as they are (no comparison with a NaN holds), so the rotation of the look
  pose is NaN in every entry. The rest of the cycle does not read the direction.
\<close>

definition processCloudNaN ::
  "BlockFitter \<Rightarrow> RobotInterface \<Rightarrow> LabeledCloud \<Rightarrow> vec3 \<Rightarrow> fault + RobotInterface" where
  "processCloudNaN go this inCloud origin =
    (let fitter = \<lparr>mOrigin = origin, mLookDir = None, mCloud = inCloud, mDebug = True,
           mRemoveGround = False, mMaxAngleOfPlaneSegmenter = 10\<rparr>;
         this1 = this\<lparr>result_m := go fitter, fitter_calls := fitter_calls this @ [fitter]\<rparr>;
         this2 = this1\<lparr>published := published this1 @ [Look_pose_NaN origin]\<rparr>;
         this3 = this2\<lparr>published := published this2 @ [Received_cloud inCloud]\<rparr>
     in publishResult this3)"

text \<open>
  Lines 193 to 202: the origin and the look direction come from the cached pose, and
  \<^verbatim>\<open>processCloud\<close> is called with them, whatever they are.
\<close>

definition pointCloudCallback ::
  "BlockFitter \<Rightarrow> RobotInterface \<Rightarrow> LabeledCloud \<Rightarrow> fault + RobotInterface" where
  "pointCloudCallback go this inCloud =
    (let origin = translation (last_robot_pose_m this) in
     case convertRobotPoseToSensorLookDir (last_robot_pose_m this) of
       None \<Rightarrow> processCloudNaN go this inCloud origin
     | Some lookDir \<Rightarrow> processCloud go this inCloud origin lookDir)"

text \<open>A sequence of calls of a callback, one for each cloud, stopping at a fault.\<close>

fun cycles ::
  "(RobotInterface \<Rightarrow> LabeledCloud \<Rightarrow> fault + RobotInterface) \<Rightarrow> RobotInterface \<Rightarrow>
   LabeledCloud list \<Rightarrow> fault + RobotInterface" where
  "cycles f this [] = Inr this"
| "cycles f this (inCloud # rest) = then_do (f this inCloud) (\<lambda>this1. cycles f this1 rest)"

subsection \<open>printResultAsJson\<close>

text \<open>\<^verbatim>\<open>std::to_string\<close> of an \<^verbatim>\<open>int\<close>: the decimal digits, after a minus sign if negative.\<close>

function string_of_nat :: "nat \<Rightarrow> string" where
  "string_of_nat n =
     (if n < 10 then [char_of (48 + n)]
      else string_of_nat (n div 10) @ [char_of (48 + n mod 10)])"
  by pat_completeness auto
termination
  by (relation "measure id") auto

declare string_of_nat.simps [simp del]

definition to_string :: "int \<Rightarrow> string" where
  "to_string n = (if n < 0 then CHR ''-'' # string_of_nat (nat (- n)) else string_of_nat (nat n))"

text \<open>
  The two lambdas \<^verbatim>\<open>vecToStr\<close> and \<^verbatim>\<open>rotToStr\<close>. How a stream prints a \<^verbatim>\<open>float\<close> is
  the parameter \<open>fmt\<close>.
\<close>

fun vecToStr :: "(real \<Rightarrow> string) \<Rightarrow> vec3 \<Rightarrow> string" where
  "vecToStr fmt (a1, a2, a3) = fmt a1 @ '', '' @ fmt a2 @ '', '' @ fmt a3"

definition rotToStr :: "(real \<Rightarrow> string) \<Rightarrow> mat3 \<Rightarrow> string" where
  "rotToStr fmt iRot =
    (case quaternionOfMatrix iRot of Quaternion qw qx qy qz \<Rightarrow>
       fmt qw @ '', '' @ fmt qx @ '', '' @ fmt qy @ '', '' @ fmt qz)"

text \<open>Line 349: the identifier of the block at index \<open>i\<close>.\<close>

definition uuid :: "int \<Rightarrow> string" where
  "uuid i = ''0_'' @ to_string (i + 1)"

text \<open>
  Lines 343 to 361: what one round of the loop appends to \<^verbatim>\<open>json\<close>, given the
  identifier. \<^verbatim>\<open>std::to_string(alpha)\<close> of the \<^verbatim>\<open>float\<close> 1.0 is \<^verbatim>\<open>1.000000\<close>.
\<close>

definition jsonEntry :: "(real \<Rightarrow> string) \<Rightarrow> string \<Rightarrow> int \<Rightarrow> Block \<Rightarrow> string" where
  "jsonEntry fmt uuid_s i block =
    (let dimensionString = vecToStr fmt (mSize block);
         positionString = vecToStr fmt (translation (mPose block));
         quaternionString = rotToStr fmt (linear (mPose block));
         colorString = vecToStr fmt (1 / 2, 2 / 5, 1 / 2)
     in ''    \"'' @ uuid_s @ ''\": {\<newline>'' @
        ''      \"classname\": \"BoxAffordanceItem\",\<newline>'' @
        ''      \"pose\": [['' @ positionString @ ''], ['' @ quaternionString @ '']],\<newline>'' @
        ''      \"uuid\": \"'' @ uuid_s @ ''\",\<newline>'' @
        ''      \"Dimensions\": ['' @ dimensionString @ ''],\<newline>'' @
        ''      \"Color\": ['' @ colorString @ ''],\<newline>'' @
        ''      \"Alpha\": '' @ ''1.000000'' @ '',\<newline>'' @
        ''      \"Name\": \" mNamePrefix '' @ to_string i @ ''\"\<newline>'' @
        ''    },\<newline>'')"

text \<open>\<^verbatim>\<open>(int)result_.mBlocks.size()\<close>: the low 32 bits of the size, read as signed.\<close>

definition int_of_size_t :: "nat \<Rightarrow> int" where
  "int_of_size_t n = sint (word_of_nat n :: 32 word)"

text \<open>The loop \<^verbatim>\<open>for(int i = 0; i < (int)result_.mBlocks.size(); ++i)\<close>, from \<open>i\<close> on.\<close>

function jsonLoop :: "(real \<Rightarrow> string) \<Rightarrow> Block list \<Rightarrow> int \<Rightarrow> string \<Rightarrow> fault + string" where
  "jsonLoop fmt blocks i json =
    (if i < int_of_size_t (length blocks) then
       then_do (subscript blocks (nat i)) (\<lambda>block.
         jsonLoop fmt blocks (i + 1) (json @ jsonEntry fmt (uuid i) i block))
     else Inr json)"
  by pat_completeness auto
termination
  by (relation "measure (\<lambda>(fmt, blocks, i, json). nat (int_of_size_t (length blocks) - i))") auto

declare jsonLoop.simps [simp del]

text \<open>The method returns the text that it writes to \<^verbatim>\<open>std::cout\<close>.\<close>

definition printResultAsJson :: "(real \<Rightarrow> string) \<Rightarrow> RobotInterface \<Rightarrow> fault + string" where
  "printResultAsJson fmt this =
     then_do (jsonLoop fmt (mBlocks (result_m this)) 0 []) (\<lambda>json. Inr (json @ ''\<newline>''))"

subsection \<open>Engines and inputs for the examples\<close>

text \<open>An engine that finds no block, and one that finds one block with a hull of one point.\<close>

definition noBlockFitter :: BlockFitter where
  "noBlockFitter request = \<lparr>mBlocks = []\<rparr>"

definition unitBlock :: Block where
  "unitBlock = \<lparr>mSize = (1, 1, 1), mPose = Identity, mHull = [(0, 0, 0)]\<rparr>"

definition oneBlockFitter :: BlockFitter where
  "oneBlockFitter request = \<lparr>mBlocks = [unitBlock]\<rparr>"

text \<open>
  The points that a list of hulls, the first of index \<open>i\<close>, contributes to the combined
  cloud: every point of a hull, in order, with the scaled palette entry of the hull.
\<close>

definition hullCloudPoints :: "nat \<Rightarrow> vec3 list list \<Rightarrow> PointXYZRGB list" where
  "hullCloudPoints i hulls =
     concat (map (\<lambda>(k, pts). map (colourPoint (times255 (palette ! (k mod 28)))) pts)
       (enumerate i hulls))"

text \<open>The request that \<^verbatim>\<open>processCloud\<close> hands to the engine.\<close>

definition fitterRequest :: "LabeledCloud \<Rightarrow> vec3 \<Rightarrow> vec3 \<Rightarrow> FitterRequest" where
  "fitterRequest inCloud origin lookDir =
     \<lparr>mOrigin = origin, mLookDir = Some lookDir, mCloud = inCloud, mDebug = True,
      mRemoveGround = False, mMaxAngleOfPlaneSegmenter = 10\<rparr>"

section \<open>Properties\<close>

lemma then_do_Inr [simp]: "then_do (Inr v) f = f v"
  by (simp add: then_do_def)

lemma then_do_Inl [simp]: "then_do (Inl e) f = Inl e"
  by (simp add: then_do_def)

lemma length_colors_m: "length colors_m = 84"
  by (simp add: colors_m_def)

lemma subscript_in: "i < length xs \<Longrightarrow> subscript xs i = Inr (xs ! i)"
  by (simp add: subscript_def)

lemma subscript_out: "length xs \<le> i \<Longrightarrow> subscript xs i = Inl OutOfRange"
  by (simp add: subscript_def)

lemma size_t_pred_pos: "0 < n \<Longrightarrow> size_t_pred n = n - 1"
  by (simp add: size_t_pred_def)

lemma length_palette: "length palette = 28"
  by (simp add: palette_def length_colors_m)

lemma palette_nth:
  "k < 28 \<Longrightarrow> palette ! k = (colors_m ! (k * 3), colors_m ! (k * 3 + 1), colors_m ! (k * 3 + 2))"
  by (simp add: palette_def length_colors_m)

lemma hullColor_ok: "hullColor i = Inr (times255 (palette ! (i mod 28)))"
proof -
  have k: "i mod 28 < 28" by simp
  then have "i mod 28 * 3 + 2 < length colors_m"
    unfolding length_colors_m by linarith
  then show ?thesis
    by (simp add: hullColor_def Let_def length_colors_m subscript_in palette_nth [OF k] times255_def)
qed

lemma edgeLoop_run:
  "1 \<le> j \<Longrightarrow> edgeLoop pts c j m =
     Inr (m\<lparr>colors := colors m @ replicate (2 * (length pts - j)) (rgba c),
            points := points m @ concat (map (\<lambda>k. [pts ! (k - 1), pts ! k]) [j..<length pts])\<rparr>)"
proof (induction pts c j m rule: edgeLoop.induct)
  case (1 pts c j m)
  show ?case
  proof (cases "j < length pts")
    case True
    with "1.prems" have pj: "size_t_pred j = j - 1" "j - 1 < length pts"
      by (simp_all add: size_t_pred_pos)
    have up: "[j..<length pts] = j # [j + 1..<length pts]"
      using True by (simp add: upt_conv_Cons)
    have rp: "length pts - j = Suc (length pts - (j + 1))"
      using True by simp
    have "edgeLoop pts c j m =
        edgeLoop pts c (j + 1) (push_vertex c (pts ! j) (push_vertex c (pts ! (j - 1)) m))"
      using True pj by (subst edgeLoop.simps) (simp add: subscript_in)
    also have "\<dots> = Inr (m\<lparr>colors := colors m @ replicate (2 * (length pts - j)) (rgba c),
            points := points m @ concat (map (\<lambda>k. [pts ! (k - 1), pts ! k]) [j..<length pts])\<rparr>)"
      using True pj "1.prems"
      by (subst "1.IH"[OF True]) (simp_all add: subscript_in push_vertex_def up rp)
    finally show ?thesis .
  next
    case False
    then show ?thesis
      by (subst edgeLoop.simps) simp
  qed
qed

lemma replicate_two_more:
  "0 < n \<Longrightarrow> replicate (2 * (n - Suc 0)) x @ [x, x] = replicate (2 * n) x"
proof -
  assume "0 < n"
  then have "2 * n = 2 * (n - Suc 0) + 2" by arith
  then have "replicate (2 * n) x = replicate (2 * (n - Suc 0)) x @ replicate 2 x"
    by (simp only: replicate_add)
  then show ?thesis by (simp add: numeral_2_eq_2)
qed

lemma emitHull_run:
  assumes "pts \<noteq> []"
  shows "emitHull i pts m =
     Inr (m\<lparr>colors := colors m @ replicate (2 * length pts) (rgba (times255 (palette ! (i mod 28)))),
            points := points m @ hullVertices pts\<rparr>)"
proof -
  from assms have n: "0 < length pts" by simp
  show ?thesis
    using n
    by (simp add: emitHull_def hullColor_ok edgeLoop_run subscript_in size_t_pred_pos
        push_vertex_def hullVertices_def replicate_two_more)
qed

lemma emitHull_empty: "emitHull i [] m = Inl OutOfRange"
  by (simp add: emitHull_def hullColor_ok edgeLoop.simps subscript_out)

lemma hullsLoop_run:
  "\<forall>h\<in>set hulls. h \<noteq> [] \<Longrightarrow>
   hullsLoop i hulls m =
     Inr (m\<lparr>colors := colors m @ hullColours i hulls,
            points := points m @ concat (map hullVertices hulls)\<rparr>)"
proof (induction hulls arbitrary: i m)
  case Nil
  show ?case by (simp add: hullColours_def)
next
  case (Cons h hulls)
  then have h: "h \<noteq> []" and rest: "\<forall>h\<in>set hulls. h \<noteq> []"
    by simp_all
  show ?case
    by (simp add: emitHull_run [OF h] Cons.IH [OF rest] hullColours_def)
qed

lemma hullsLoop_empty:
  "\<exists>h\<in>set hulls. h = [] \<Longrightarrow> hullsLoop i hulls m = Inl OutOfRange"
proof (induction hulls arbitrary: i m)
  case Nil
  then show ?case by simp
next
  case (Cons h hulls)
  show ?case
  proof (cases "h = []")
    case True
    then show ?thesis by (simp add: emitHull_empty)
  next
    case False
    with Cons.prems have "\<exists>h\<in>set hulls. h = []" by auto
    then show ?thesis
      by (simp add: emitHull_run [OF False] Cons.IH)
  qed
qed

lemma segments_append:
  "even (length xs) \<Longrightarrow> segments (xs @ ys) = segments xs @ segments ys"
  by (induction xs rule: segments.induct) simp_all

lemma segments_pairs:
  "segments (concat (map (\<lambda>k. [f k, g k]) ks)) = map (\<lambda>k. (f k, g k)) ks"
  by (induction ks) simp_all

lemma length_pairs: "length (concat (map (\<lambda>k. [f k, g k]) ks)) = 2 * length ks"
  by (induction ks) simp_all

lemma length_hullVertices: "length (hullVertices pts) = 2 * (length pts - 1) + 2"
  by (simp add: hullVertices_def length_pairs)

lemma segments_hullVertices: "segments (hullVertices pts) = hullSegments pts"
  by (simp add: hullVertices_def hullSegments_def hullEdges_def closingSegment_def
      segments_append segments_pairs length_pairs)

lemma segments_hulls:
  "segments (concat (map hullVertices hulls)) = concat (map hullSegments hulls)"
  by (induction hulls) (simp_all add: segments_append length_hullVertices segments_hullVertices)

lemma publishHullsAsMarkers_run:
  assumes "\<forall>pts\<in>set cloud_ptrs. pts \<noteq> []"
  shows "\<exists>marker. publishHullsAsMarkers cloud_ptrs secs nsecs = Inr marker \<and>
     points marker = concat (map hullVertices cloud_ptrs) \<and>
     colors marker = hullColours 0 cloud_ptrs \<and> frame_locked marker"
  by (simp add: publishHullsAsMarkers_def Let_def hullsLoop_run [OF assms] Marker0_def)

lemma publishHullsAsMarkers_empty:
  assumes "\<exists>pts\<in>set cloud_ptrs. pts = []"
  shows "publishHullsAsMarkers cloud_ptrs secs nsecs = Inl OutOfRange"
  by (simp add: publishHullsAsMarkers_def Let_def hullsLoop_empty [OF assms])

subsection \<open>Bounds of the reads in publishHullsAsMarkers\<close>

text \<open>
  Claim C9. When every hull has at least one point, every read of a point in
  \<^verbatim>\<open>publishHullsAsMarkers\<close> (indices \<open>j - 1\<close> and \<open>j\<close> in the edge loop, indices \<open>0\<close> and
  \<open>size - 1\<close> of the closing segment) is inside the hull, so the method returns its
  marker. The closing segment is read for every hull: a hull without points makes the
  method read outside it.
\<close>

theorem markers_reads_in_bounds:
  "((\<forall>pts\<in>set cloud_ptrs. 1 \<le> length pts) \<longrightarrow>
      (\<exists>marker. publishHullsAsMarkers cloud_ptrs secs nsecs = Inr marker)) \<and>
   ((\<exists>pts\<in>set cloud_ptrs. length pts = 0) \<longrightarrow>
      publishHullsAsMarkers cloud_ptrs secs nsecs = Inl OutOfRange)"
proof (intro conjI impI)
  assume "\<forall>pts\<in>set cloud_ptrs. 1 \<le> length pts"
  then have "\<forall>pts\<in>set cloud_ptrs. pts \<noteq> []" by auto
  from publishHullsAsMarkers_run [OF this]
  show "\<exists>marker. publishHullsAsMarkers cloud_ptrs secs nsecs = Inr marker" by blast
next
  assume "\<exists>pts\<in>set cloud_ptrs. length pts = 0"
  then have "\<exists>pts\<in>set cloud_ptrs. pts = []" by simp
  then show "publishHullsAsMarkers cloud_ptrs secs nsecs = Inl OutOfRange"
    by (rule publishHullsAsMarkers_empty)
qed

theorem markers_reads_in_bounds_witness:
  "(\<exists>marker. publishHullsAsMarkers [[(0, 0, 0)], [(0, 0, 0), (1, 0, 0)]] 0 0 = Inr marker) \<and>
   publishHullsAsMarkers [[(0, 0, 0)], []] 0 0 = Inl OutOfRange"
  using markers_reads_in_bounds [of "[[(0, 0, 0)], [(0, 0, 0), (1, 0, 0)]]" 0 0]
    markers_reads_in_bounds [of "[[(0, 0, 0)], []]" 0 0]
  by simp

subsection \<open>The segments of a hull\<close>

text \<open>
  Claim C1, as amended. For every list of hulls that have at least one point each, the
  segments of the marker are, hull after hull, the \<open>n - 1\<close> edges
  \<open>(boundary[j-1], boundary[j])\<close> for \<open>j\<close> from 1 to \<open>n - 1\<close> and then the closing segment
  that joins \<open>boundary[0]\<close> and \<open>boundary[n-1]\<close>: \<open>n\<close> segments for a hull of \<open>n\<close> points,
  also when \<open>n\<close> is 1.
\<close>

theorem closed_polyline_segments:
  assumes "\<forall>pts\<in>set cloud_ptrs. 1 \<le> length pts"
  shows "\<exists>marker. publishHullsAsMarkers cloud_ptrs secs nsecs = Inr marker \<and>
     segments (points marker) = concat (map hullSegments cloud_ptrs) \<and>
     (\<forall>pts\<in>set cloud_ptrs. length (hullEdges pts) = length pts - 1 \<and>
        length (hullSegments pts) = length pts)"
proof -
  from assms have ne: "\<forall>pts\<in>set cloud_ptrs. pts \<noteq> []" by auto
  from publishHullsAsMarkers_run [OF ne] obtain marker where
    m: "publishHullsAsMarkers cloud_ptrs secs nsecs = Inr marker"
      "points marker = concat (map hullVertices cloud_ptrs)"
    by blast
  have "segments (points marker) = concat (map hullSegments cloud_ptrs)"
    by (simp add: m(2) segments_hulls)
  moreover have "\<forall>pts\<in>set cloud_ptrs. length (hullEdges pts) = length pts - 1 \<and>
        length (hullSegments pts) = length pts"
    using assms by (auto simp: hullSegments_def hullEdges_def)
  ultimately show ?thesis using m(1) by blast
qed

theorem closed_polyline_segments_witness:
  "\<exists>marker. publishHullsAsMarkers [[(0, 0, 0), (1, 0, 0), (1, 1, 0)], [(0, 0, 1)]] 0 0 = Inr marker \<and>
     segments (points marker) =
       [((0, 0, 0), (1, 0, 0)), ((1, 0, 0), (1, 1, 0)), ((0, 0, 0), (1, 1, 0)),
        ((0, 0, 1), (0, 0, 1))]"
  using closed_polyline_segments [of "[[(0, 0, 0), (1, 0, 0), (1, 1, 0)], [(0, 0, 1)]]" 0 0]
  by (simp add: hullSegments_def hullEdges_def closingSegment_def upt_rec)

text \<open>
  Claim C1 as stated fails for a hull of one point: the closing segment is pushed
  without a test of the size, so such a hull gives one segment, from the point to itself.
\<close>

theorem one_point_hull_has_a_segment:
  "map_sum id (\<lambda>marker. segments (points marker)) (publishHullsAsMarkers [[(0, 0, 1)]] 0 0) =
     Inr [((0, 0, 1), (0, 0, 1))]"
  by (simp add: publishHullsAsMarkers_def Let_def Marker0_def emitHull_def hullColor_ok
      edgeLoop.simps subscript_def size_t_pred_def push_vertex_def)


lemma cloudLoop_run:
  "cloudLoop i hulls combined = Inr (combined @ hullCloudPoints i hulls)"
  by (induction hulls arbitrary: i combined) (simp_all add: hullColor_ok hullCloudPoints_def)

lemma publishHullsAsCloud_run:
  "publishHullsAsCloud cloud_ptrs secs nsecs =
     Inr \<lparr>cloud_frame_id = ''odom'', cloud_stamp = (secs, nsecs),
          cloud_points = hullCloudPoints 0 cloud_ptrs\<rparr>"
  by (simp add: publishHullsAsCloud_def cloudLoop_run)

subsection \<open>The colour of a hull\<close>

text \<open>
  Claim C3, as amended. The table has 28 entries. For every list of hulls and every hull
  index \<open>i\<close>, every point of hull \<open>i\<close> in the combined cloud carries the three channels
  of \<open>palette[i mod 28]\<close> multiplied by 255 and cut to 8 bits, and (when no hull is
  empty) each of the \<open>2 n\<close> vertices that hull \<open>i\<close> contributes to the marker carries
  the three channels of \<open>palette[i mod 28]\<close> multiplied by 255, with alpha 1. Hull 0 and
  hull 28 get the same colour.
\<close>

theorem hull_colour_scaled_palette:
  "length palette = 28 \<and>
   (\<exists>output. publishHullsAsCloud cloud_ptrs secs nsecs = Inr output \<and>
      cloud_points output =
        concat (map (\<lambda>(i, pts). map (colourPoint (times255 (palette ! (i mod 28)))) pts)
          (enumerate 0 cloud_ptrs))) \<and>
   ((\<forall>pts\<in>set cloud_ptrs. pts \<noteq> []) \<longrightarrow>
      (\<exists>marker. publishHullsAsMarkers cloud_ptrs secs nsecs = Inr marker \<and>
         colors marker =
           concat (map (\<lambda>(i, pts). replicate (2 * length pts) (rgba (times255 (palette ! (i mod 28)))))
             (enumerate 0 cloud_ptrs)))) \<and>
   hullColor 0 = hullColor 28"
proof (intro conjI impI)
  show "length palette = 28" by (rule length_palette)
  show "\<exists>output. publishHullsAsCloud cloud_ptrs secs nsecs = Inr output \<and>
      cloud_points output =
        concat (map (\<lambda>(i, pts). map (colourPoint (times255 (palette ! (i mod 28)))) pts)
          (enumerate 0 cloud_ptrs))"
    by (simp add: publishHullsAsCloud_run hullCloudPoints_def)
  show "hullColor 0 = hullColor 28" by (simp add: hullColor_ok)
next
  assume "\<forall>pts\<in>set cloud_ptrs. pts \<noteq> []"
  from publishHullsAsMarkers_run [OF this, of secs nsecs]
  show "\<exists>marker. publishHullsAsMarkers cloud_ptrs secs nsecs = Inr marker \<and>
         colors marker =
           concat (map (\<lambda>(i, pts). replicate (2 * length pts) (rgba (times255 (palette ! (i mod 28)))))
             (enumerate 0 cloud_ptrs))"
    by (auto simp: hullColours_def)
qed

lemma palette_0: "palette ! 0 = (51 / 255, 160 / 255, 44 / 255)"
  by (simp add: palette_nth colors_m_def)

lemma palette_1: "palette ! Suc 0 = (166 / 255, 206 / 255, 227 / 255)"
  by (simp add: palette_nth colors_m_def)

lemma palette_16: "palette ! 16 = (1 / 2, 1, 0)"
  by (simp add: palette_nth colors_m_def)

theorem hull_colour_scaled_palette_witness:
  "(\<exists>marker. publishHullsAsMarkers [[(0, 0, 0), (1, 0, 0)], [(0, 0, 1)]] 0 0 = Inr marker \<and>
      colors marker = [ColorRGBA 51 160 44 1, ColorRGBA 51 160 44 1, ColorRGBA 51 160 44 1,
        ColorRGBA 51 160 44 1, ColorRGBA 166 206 227 1, ColorRGBA 166 206 227 1])"
  using hull_colour_scaled_palette [of "[[(0, 0, 0), (1, 0, 0)], [(0, 0, 1)]]" 0 0]
  by (simp add: palette_0 palette_1 times255_def rgba_def numeral_2_eq_2)

lemma hullCloudPoints_skip:
  "hullCloudPoints i (replicate n [] @ hulls) = hullCloudPoints (i + n) hulls"
  by (induction n arbitrary: i) (simp_all add: hullCloudPoints_def)

text \<open>
  Claim C3 as stated fails: the colour carried is not the palette entry but the entry
  times 255. The vertices of hull 0 carry \<open>(51, 160, 44)\<close> where the entry is
  \<open>(51/255, 160/255, 44/255)\<close>, and a point of hull 16 carries the bytes \<open>(127, 255, 0)\<close>
  where the entry is \<open>(1/2, 1, 0)\<close>.
\<close>

theorem marker_colour_is_not_palette_entry:
  "map_sum id colors (publishHullsAsMarkers [[(0, 0, 0)]] 0 0) =
     Inr [ColorRGBA 51 160 44 1, ColorRGBA 51 160 44 1] \<and>
   rgba (palette ! (0 mod 28)) = ColorRGBA (51 / 255) (160 / 255) (44 / 255) 1 \<and>
   ColorRGBA 51 160 44 1 \<noteq> rgba (palette ! (0 mod 28)) \<and>
   map_sum id cloud_points (publishHullsAsCloud (replicate 16 [] @ [[(0, 0, 0)]]) 0 0) =
     Inr [PointXYZRGB (0, 0, 0) 127 255 0] \<and>
   palette ! (16 mod 28) = (1 / 2, 1, 0)"
proof -
  have m: "map_sum id colors (publishHullsAsMarkers [[(0, 0, 0)]] 0 0) =
     Inr [ColorRGBA 51 160 44 1, ColorRGBA 51 160 44 1]"
    by (simp add: publishHullsAsMarkers_def Let_def Marker0_def emitHull_def hullColor_ok
      edgeLoop.simps subscript_def size_t_pred_def push_vertex_def palette_0 times255_def rgba_def)
  have fl: "\<lfloor>255 / 2 :: real\<rfloor> = 127" by linarith
  have c: "map_sum id cloud_points (publishHullsAsCloud (replicate 16 [] @ [[(0, 0, 0)]]) 0 0) =
     Inr [PointXYZRGB (0, 0, 0) 127 255 0]"
    by (simp add: publishHullsAsCloud_run hullCloudPoints_skip)
       (simp add: hullCloudPoints_def palette_16 times255_def colourPoint_def uint8_of_double_def fl)
  show ?thesis
    using m c by (simp add: palette_0 palette_16 rgba_def)
qed


lemma squaredNorm_eq: "squaredNorm (a, b, c) = a * a + b * b + c * c"
  by (simp add: squaredNorm_def)

lemma lookRotation_columns:
  "lookRotation (a, b, c) =
     (normalized (b, - a, 0), normalized (c * a, c * b, - (a * a) - b * b), normalized (a, b, c))"
  by (simp add: lookRotation_def UnitZ_def Let_def)

subsection \<open>The rotation of the look pose\<close>

text \<open>
  Claim C4, as amended. For every look direction parallel to the world up axis (its
  cross product with \<open>(0, 0, 1)\<close> is zero) the frame-building step tests nothing: no
  fault is signalled and no other axis is substituted. The columns \<open>x\<close> and \<open>y\<close> of the
  rotation are the zero vector, which \<^verbatim>\<open>normalized()\<close> returns as it is, column \<open>z\<close>
  is \<^verbatim>\<open>normalized()\<close> of the look direction, and \<^verbatim>\<open>processCloud\<close> goes on to publish
  the look pose with this rotation.
\<close>

theorem parallel_look_direction_gives_zero_columns:
  assumes "cross lookDir UnitZ = zero3"
  shows "lookRotation lookDir = (zero3, zero3, normalized lookDir) \<and>
     processCloud go this inCloud origin lookDir =
       publishResult (this\<lparr>result_m := go \<lparr>mOrigin = origin, mLookDir = Some lookDir, mCloud = inCloud,
             mDebug = True, mRemoveGround = False, mMaxAngleOfPlaneSegmenter = 10\<rparr>,
           fitter_calls := fitter_calls this @ [\<lparr>mOrigin = origin, mLookDir = Some lookDir, mCloud = inCloud,
             mDebug = True, mRemoveGround = False, mMaxAngleOfPlaneSegmenter = 10\<rparr>],
           published := published this @
             [Look_pose \<lparr>linear = (zero3, zero3, normalized lookDir), translation = origin\<rparr>,
              Received_cloud inCloud]\<rparr>)"
proof -
  obtain a b c where ld: "lookDir = (a, b, c)" by (cases lookDir) auto
  from assms have ab: "a = 0" "b = 0"
    by (auto simp: ld UnitZ_def zero3_def)
  have r: "lookRotation lookDir = (zero3, zero3, normalized lookDir)"
    by (simp add: ld ab lookRotation_columns normalized_def squaredNorm_eq zero3_def)
  show ?thesis
    by (simp add: r processCloud_def Let_def)
qed

theorem parallel_look_direction_gives_zero_columns_witness:
  "cross (0, 0, 1) UnitZ = zero3 \<and> lookRotation (0, 0, 1) = ((0, 0, 0), (0, 0, 0), (0, 0, 1))"
proof -
  have h: "cross (0, 0, 1) UnitZ = zero3" by (simp add: UnitZ_def zero3_def)
  show ?thesis
    using h parallel_look_direction_gives_zero_columns [OF h]
    by (simp add: zero3_def normalized_def squaredNorm_eq)
qed

text \<open>
  Claim C4 as stated fails at the look direction \<open>(0, 0, 1)\<close>: the rotation has two
  zero columns, and the cycle returns normally with this rotation as the first message
  published.
\<close>

theorem up_look_direction_is_not_detected:
  "lookRotation (0, 0, 1) = ((0, 0, 0), (0, 0, 0), (0, 0, 1)) \<and>
   map_sum id (\<lambda>this. hd (published this))
     (processCloud noBlockFitter RobotInterface_new [] (0, 0, 0) (0, 0, 1)) =
   Inr (Look_pose \<lparr>linear = ((0, 0, 0), (0, 0, 0), (0, 0, 1)), translation = (0, 0, 0)\<rparr>)"
  by (simp add: lookRotation_columns normalized_def squaredNorm_eq processCloud_def Let_def
      publishResult_def noBlockFitter_def RobotInterface_new_def publishHullsAsCloud_def
      publishHullsAsMarkers_def)


lemma publishResult_ok:
  assumes "\<forall>block\<in>set (mBlocks (result_m this)). mHull block \<noteq> []"
  shows "\<exists>out marker. publishResult this =
     Inr (this\<lparr>published := published this @ [Hull_cloud out, Hull_markers marker]\<rparr>)"
proof -
  from assms have "\<forall>pts\<in>set (map mHull (mBlocks (result_m this))). pts \<noteq> []" by simp
  from publishHullsAsMarkers_run [OF this, of 0 0] obtain marker where
    "publishHullsAsMarkers (map mHull (mBlocks (result_m this))) 0 0 = Inr marker" by blast
  then show ?thesis
    by (auto simp: publishResult_def Let_def publishHullsAsCloud_run)
qed

lemma publishResult_fault:
  assumes "\<exists>block\<in>set (mBlocks (result_m this)). mHull block = []"
  shows "publishResult this = Inl OutOfRange"
proof -
  from assms have "\<exists>pts\<in>set (map mHull (mBlocks (result_m this))). pts = []" by force
  from publishHullsAsMarkers_empty [OF this, of 0 0] show ?thesis
    by (simp add: publishResult_def Let_def publishHullsAsCloud_run)
qed

lemma processCloud_unfold:
  "processCloud go this inCloud origin lookDir =
     publishResult (this\<lparr>result_m := go (fitterRequest inCloud origin lookDir),
       fitter_calls := fitter_calls this @ [fitterRequest inCloud origin lookDir],
       published := published this @
         [Look_pose \<lparr>linear = lookRotation lookDir, translation = origin\<rparr>, Received_cloud inCloud]\<rparr>)"
  by (simp add: processCloud_def Let_def fitterRequest_def)

lemma processCloud_outcome:
  "case processCloud go this inCloud origin lookDir of
     Inl e \<Rightarrow> e = OutOfRange \<and>
       (\<exists>block\<in>set (mBlocks (go (fitterRequest inCloud origin lookDir))). mHull block = [])
   | Inr this' \<Rightarrow>
       result_m this' = go (fitterRequest inCloud origin lookDir) \<and>
       fitter_calls this' = fitter_calls this @ [fitterRequest inCloud origin lookDir] \<and>
       last_robot_pose_m this' = last_robot_pose_m this"
proof (cases "\<exists>block\<in>set (mBlocks (go (fitterRequest inCloud origin lookDir))). mHull block = []")
  case True
  let ?t = "this\<lparr>result_m := go (fitterRequest inCloud origin lookDir),
       fitter_calls := fitter_calls this @ [fitterRequest inCloud origin lookDir],
       published := published this @
         [Look_pose \<lparr>linear = lookRotation lookDir, translation = origin\<rparr>, Received_cloud inCloud]\<rparr>"
  from True have "\<exists>block\<in>set (mBlocks (result_m ?t)). mHull block = []" by simp
  from publishResult_fault [OF this] True show ?thesis
    by (simp add: processCloud_unfold)
next
  case False
  let ?t = "this\<lparr>result_m := go (fitterRequest inCloud origin lookDir),
       fitter_calls := fitter_calls this @ [fitterRequest inCloud origin lookDir],
       published := published this @
         [Look_pose \<lparr>linear = lookRotation lookDir, translation = origin\<rparr>, Received_cloud inCloud]\<rparr>"
  from False have "\<forall>block\<in>set (mBlocks (result_m ?t)). mHull block \<noteq> []" by simp
  from publishResult_ok [OF this] obtain out marker where
    "publishResult ?t = Inr (?t\<lparr>published := published ?t @ [Hull_cloud out, Hull_markers marker]\<rparr>)"
    by blast
  then show ?thesis
    by (simp add: processCloud_unfold)
qed

subsection \<open>processCloud and its input\<close>

text \<open>
  Claim C2, as amended. For every prior state and every input cloud, empty or not,
  \<^verbatim>\<open>processCloud\<close> validates nothing: it hands the engine the request built from the
  cloud, the origin and the look direction, exactly once, and overwrites \<^verbatim>\<open>result_\<close>
  with what the engine returns. The only fault of the cycle is a read outside a hull
  that the engine returned without points.
\<close>

theorem processCloud_never_validates:
  "case processCloud go this inCloud origin lookDir of
     Inl e \<Rightarrow> e = OutOfRange \<and>
       (\<exists>block\<in>set (mBlocks (go (fitterRequest inCloud origin lookDir))). mHull block = [])
   | Inr this' \<Rightarrow>
       result_m this' = go (fitterRequest inCloud origin lookDir) \<and>
       fitter_calls this' = fitter_calls this @ [fitterRequest inCloud origin lookDir]"
  using processCloud_outcome [where go = go and this = this and inCloud = inCloud and origin = origin and lookDir = lookDir]
  by (simp split: sum.splits)

theorem processCloud_never_validates_witness:
  "\<exists>this'. processCloud oneBlockFitter RobotInterface_new [] (0, 0, 0) (1, 0, 0) = Inr this' \<and>
     result_m this' = \<lparr>mBlocks = [unitBlock]\<rparr> \<and>
     fitter_calls this' = [fitterRequest [] (0, 0, 0) (1, 0, 0)]"
proof -
  have "\<not> (\<exists>block\<in>set (mBlocks (oneBlockFitter (fitterRequest [] (0, 0, 0) (1, 0, 0)))). mHull block = [])"
    by (simp add: oneBlockFitter_def unitBlock_def)
  with processCloud_never_validates [where go = oneBlockFitter and this = RobotInterface_new and inCloud = "[]" and origin = "(0, 0, 0)" and lookDir = "(1, 0, 0)"]
  show ?thesis
    by (auto simp: oneBlockFitter_def RobotInterface_new_def split: sum.splits)
qed

text \<open>
  Claim C2 as stated fails: with a stored result of one block and an engine that finds
  nothing, the empty cloud is handed to the engine, the cycle returns normally and the
  stored result is replaced by the empty one.
\<close>

theorem empty_cloud_reaches_the_engine:
  "map_sum id (\<lambda>this'. (result_m this', map mCloud (fitter_calls this')))
     (processCloud noBlockFitter (RobotInterface_new\<lparr>result_m := \<lparr>mBlocks = [unitBlock]\<rparr>\<rparr>) []
        (0, 0, 0) (1, 0, 0)) =
   Inr (\<lparr>mBlocks = []\<rparr>, [[]]) \<and>
   result_m (RobotInterface_new\<lparr>result_m := \<lparr>mBlocks = [unitBlock]\<rparr>\<rparr>) \<noteq> \<lparr>mBlocks = []\<rparr>"
  by (simp add: processCloud_def Let_def publishResult_def noBlockFitter_def RobotInterface_new_def
      publishHullsAsCloud_def publishHullsAsMarkers_def)

lemma quaternionOfMatrix_Identity3: "quaternionOfMatrix Identity3 = Quaternion 1 0 0 0"
proof -
  have "sqrt (4 :: real) = 2"
    using real_sqrt_abs [of 2] by simp
  then show ?thesis
    by (simp add: quaternionOfMatrix_def Identity3_def Let_def)
qed

lemma quat_to_euler_identity: "quat_to_euler (Quaternion 1 0 0 0) = (0, Some 0, 0)"
  by (simp add: atan2_def c_asin_def)

lemma convert_identity_rotation:
  "convertRobotPoseToSensorLookDir \<lparr>linear = Identity3, translation = t\<rparr> = Some (1, 0, 0)"
  by (simp add: convertRobotPoseToSensorLookDir_def quaternionOfMatrix_Identity3
      atan2_def c_asin_def Let_def)

subsection \<open>The identity pose\<close>

text \<open>
  Claim C7. For the identity quaternion \<open>(w, x, y, z) = (1, 0, 0, 0)\<close>,
  \<^verbatim>\<open>quat_to_euler\<close> returns roll, pitch and yaw 0; the identity pose has this quaternion,
  and \<^verbatim>\<open>convertRobotPoseToSensorLookDir\<close> returns the look direction \<open>(1, 0, 0)\<close> for it.
\<close>

theorem identity_quaternion_looks_along_x:
  "quat_to_euler (Quaternion 1 0 0 0) = (0, Some 0, 0) \<and>
   quaternionOfMatrix (linear Identity) = Quaternion 1 0 0 0 \<and>
   convertRobotPoseToSensorLookDir Identity = Some (1, 0, 0)"
  by (simp add: atan2_def c_asin_def Identity_def quaternionOfMatrix_Identity3
      convert_identity_rotation)

lemma pointCloudCallback_identity:
  "last_robot_pose_m this = Identity \<Longrightarrow>
   pointCloudCallback go this inCloud = processCloud go this inCloud (0, 0, 0) (1, 0, 0)"
  by (simp add: pointCloudCallback_def Let_def Identity_def convert_identity_rotation)

lemma cycles_identity:
  "last_robot_pose_m this = Identity \<Longrightarrow>
   cycles (pointCloudCallback go) this clouds =
     cycles (\<lambda>this inCloud. processCloud go this inCloud (0, 0, 0) (1, 0, 0)) this clouds"
proof (induction clouds arbitrary: this)
  case Nil
  show ?case by simp
next
  case (Cons inCloud clouds)
  show ?case
  proof (cases "processCloud go this inCloud (0, 0, 0) (1, 0, 0)")
    case (Inl e)
    then show ?thesis
      by (simp add: pointCloudCallback_identity [OF Cons.prems])
  next
    case (Inr this1)
    with processCloud_outcome [where go = go and this = this and inCloud = inCloud and origin = "(0, 0, 0)" and lookDir = "(1, 0, 0)"] Cons.prems
    have "last_robot_pose_m this1 = Identity" by simp
    from Cons.IH [OF this] Inr show ?thesis
      by (simp add: pointCloudCallback_identity [OF Cons.prems])
  qed
qed

lemma cycles_requests:
  "cycles (\<lambda>this inCloud. processCloud go this inCloud origin lookDir) this clouds = Inr this' \<Longrightarrow>
   fitter_calls this' = fitter_calls this @ map (\<lambda>inCloud. fitterRequest inCloud origin lookDir) clouds"
proof (induction clouds arbitrary: this)
  case Nil
  then show ?case by simp
next
  case (Cons inCloud clouds)
  show ?case
  proof (cases "processCloud go this inCloud origin lookDir")
    case (Inl e)
    with Cons.prems show ?thesis by simp
  next
    case (Inr this1)
    with processCloud_outcome [where go = go and this = this and inCloud = inCloud and origin = origin and lookDir = lookDir]
    have f: "fitter_calls this1 = fitter_calls this @ [fitterRequest inCloud origin lookDir]" by simp
    from Cons.prems Inr
    have "cycles (\<lambda>this inCloud. processCloud go this inCloud origin lookDir) this1 clouds = Inr this'"
      by simp
    from Cons.IH [OF this] f show ?thesis by simp
  qed
qed

text \<open>
  Claim C10. The constructor sets the cached pose to the identity. Hence any sequence
  of clouds that arrives before a pose update is processed, cloud after cloud, by
  \<^verbatim>\<open>processCloud\<close> with origin \<open>(0, 0, 0)\<close> and look direction \<open>(1, 0, 0)\<close>, and these are
  the origin and the look direction of every request handed to the engine.
\<close>

theorem clouds_before_first_pose:
  "last_robot_pose_m RobotInterface_new = Identity \<and>
   cycles (pointCloudCallback go) RobotInterface_new clouds =
     cycles (\<lambda>this inCloud. processCloud go this inCloud (0, 0, 0) (1, 0, 0)) RobotInterface_new clouds \<and>
   (\<forall>this'. cycles (pointCloudCallback go) RobotInterface_new clouds = Inr this' \<longrightarrow>
      fitter_calls this' = map (\<lambda>inCloud. fitterRequest inCloud (0, 0, 0) (1, 0, 0)) clouds)"
proof -
  have p: "last_robot_pose_m RobotInterface_new = Identity"
    by (simp add: RobotInterface_new_def)
  have f: "fitter_calls RobotInterface_new = []"
    by (simp add: RobotInterface_new_def)
  show ?thesis
    using cycles_requests [where go = go and origin = "(0, 0, 0)" and lookDir = "(1, 0, 0)" and this = RobotInterface_new and clouds = clouds]
    by (simp add: p cycles_identity [OF p] f)
qed

theorem clouds_before_first_pose_witness:
  "\<exists>this'. cycles (pointCloudCallback oneBlockFitter) RobotInterface_new [[], []] = Inr this' \<and>
     fitter_calls this' = [fitterRequest [] (0, 0, 0) (1, 0, 0), fitterRequest [] (0, 0, 0) (1, 0, 0)]"
proof -
  have ne: "\<forall>block\<in>set (mBlocks (result_m (this\<lparr>result_m := oneBlockFitter r\<rparr>))). mHull block \<noteq> []"
    for this :: RobotInterface and r
    by (simp add: oneBlockFitter_def unitBlock_def)
  have step: "\<exists>this'. processCloud oneBlockFitter this [] (0, 0, 0) (1, 0, 0) = Inr this'"
    for this :: RobotInterface
    using processCloud_outcome [where go = oneBlockFitter and this = this and inCloud = "[]"
        and origin = "(0, 0, 0)" and lookDir = "(1, 0, 0)"]
    by (cases "processCloud oneBlockFitter this [] (0, 0, 0) (1, 0, 0)")
       (simp_all add: oneBlockFitter_def unitBlock_def)
  obtain t1 where t1: "processCloud oneBlockFitter RobotInterface_new [] (0, 0, 0) (1, 0, 0) = Inr t1"
    using step by blast
  obtain t2 where t2: "processCloud oneBlockFitter t1 [] (0, 0, 0) (1, 0, 0) = Inr t2"
    using step by blast
  have run: "cycles (\<lambda>this inCloud. processCloud oneBlockFitter this inCloud (0, 0, 0) (1, 0, 0))
      RobotInterface_new [[], []] = Inr t2"
    by (simp add: t1 t2)
  show ?thesis
    using clouds_before_first_pose [where go = oneBlockFitter and clouds = "[[], []]"] run
    by simp
qed


lemma pitch_argument_bounded:
  fixes w x y z :: real
  assumes "w * w + x * x + y * y + z * z = 1"
  shows "\<bar>2 * (w * y - z * x)\<bar> \<le> 1"
proof -
  have a: "1 - 2 * (w * y - z * x) = (w - y) * (w - y) + (x + z) * (x + z)"
    using assms by (simp add: algebra_simps)
  have b: "1 + 2 * (w * y - z * x) = (w + y) * (w + y) + (x - z) * (x - z)"
    using assms by (simp add: algebra_simps)
  have "0 \<le> 1 - 2 * (w * y - z * x)"
    unfolding a by (intro add_nonneg_nonneg zero_le_square)
  moreover have "0 \<le> 1 + 2 * (w * y - z * x)"
    unfolding b by (intro add_nonneg_nonneg zero_le_square)
  ultimately show ?thesis by linarith
qed

subsection \<open>The pitch of quat\_to\_euler\<close>

text \<open>
  Claim C5, as amended. For every input quaternion \<open>(w, x, y, z)\<close>, \<^verbatim>\<open>quat_to_euler\<close>
  applies \<^verbatim>\<open>asin\<close> to \<open>2 (w y - z x)\<close> as it is, without clamping: the pitch is the arc
  sine when the argument lies in \<open>[-1, 1]\<close> and a NaN otherwise. For a quaternion of
  norm 1 the argument does lie in \<open>[-1, 1]\<close>.
\<close>

theorem pitch_is_unclamped_asin:
  "(case quat_to_euler (Quaternion w x y z) of (roll, pitch, yaw) \<Rightarrow>
      pitch = (if \<bar>2 * (w * y - z * x)\<bar> \<le> 1 then Some (arcsin (2 * (w * y - z * x))) else None)) \<and>
   (w * w + x * x + y * y + z * z = 1 \<longrightarrow> \<bar>2 * (w * y - z * x)\<bar> \<le> 1)"
  using pitch_argument_bounded [of w x y z]
  by (auto simp: c_asin_def)

theorem pitch_is_unclamped_asin_witness:
  "(1 :: real) * 1 + 0 * 0 + 0 * 0 + 0 * 0 = 1 \<and>
   fst (snd (quat_to_euler (Quaternion 1 0 0 0))) = Some 0 \<and>
   fst (snd (quat_to_euler (Quaternion 0 0 3 0))) = Some 0"
  using pitch_is_unclamped_asin [of 1 0 0 0] pitch_is_unclamped_asin [of 0 0 3 0]
  by simp

text \<open>
  Claim C5 as stated fails: for the quaternion \<open>(1, 0, 1, 0)\<close> the argument is 2, nothing
  clamps it, and the pitch is a NaN.
\<close>

theorem pitch_of_unnormalised_quaternion_is_nan:
  "fst (snd (quat_to_euler (Quaternion 1 0 1 0))) = None"
  by (simp add: c_asin_def)


lemma int_of_size_t_le: "int_of_size_t n \<le> int n"
  by (simp add: int_of_size_t_def signed_of_nat signed_take_bit_int_less_eq_self_iff)

lemma int_of_size_t_small: "n < 2 ^ 31 \<Longrightarrow> int_of_size_t n = int n"
proof -
  assume "n < 2 ^ 31"
  then have "int n < 2 ^ 31"
    by (metis of_nat_less_iff of_nat_numeral of_nat_power)
  then show ?thesis
    by (simp add: int_of_size_t_def signed_of_nat signed_take_bit_int_eq_self)
qed

lemma uuid_nat: "uuid (int k) = ''0_'' @ string_of_nat (k + 1)"
proof -
  have "nat (int k + 1) = k + 1" by simp
  then show ?thesis
    by (simp add: uuid_def to_string_def)
qed

lemma jsonLoop_run:
  "0 \<le> i \<Longrightarrow> jsonLoop fmt blocks i json =
     Inr (json @ concat (map (\<lambda>k. jsonEntry fmt (uuid (int k)) (int k) (blocks ! k))
       [nat i..<nat (int_of_size_t (length blocks))]))"
proof (induction fmt blocks i json rule: jsonLoop.induct)
  case (1 fmt blocks i json)
  show ?case
  proof (cases "i < int_of_size_t (length blocks)")
    case True
    with int_of_size_t_le [of "length blocks"] "1.prems"
    have inb: "nat i < length blocks" by linarith
    have lt: "nat i < nat (int_of_size_t (length blocks))"
      using True "1.prems" by linarith
    have up: "[nat i..<nat (int_of_size_t (length blocks))] =
        nat i # [nat (i + 1)..<nat (int_of_size_t (length blocks))]"
    proof -
      have "nat (i + 1) = Suc (nat i)" using "1.prems" by linarith
      with lt show ?thesis by (simp only: upt_conv_Cons)
    qed
    have "jsonLoop fmt blocks i json =
        jsonLoop fmt blocks (i + 1) (json @ jsonEntry fmt (uuid i) i (blocks ! nat i))"
      using True inb by (subst jsonLoop.simps) (simp add: subscript_in)
    also have "\<dots> = Inr ((json @ jsonEntry fmt (uuid i) i (blocks ! nat i)) @
        concat (map (\<lambda>k. jsonEntry fmt (uuid (int k)) (int k) (blocks ! k))
          [nat (i + 1)..<nat (int_of_size_t (length blocks))]))"
      by (rule "1.IH" [OF True]) (use "1.prems" in simp)
    finally show ?thesis
      using "1.prems" by (simp only: up list.map concat.simps append_assoc int_nat_eq if_True)
  next
    case False
    then have "nat (int_of_size_t (length blocks)) \<le> nat i" by linarith
    with False show ?thesis
      by (subst jsonLoop.simps) simp
  qed
qed

lemma printResultAsJson_run:
  "printResultAsJson fmt this =
     Inr (concat (map (\<lambda>i. jsonEntry fmt (''0_'' @ string_of_nat (i + 1)) (int i)
                          (mBlocks (result_m this) ! i))
            [0..<nat (int_of_size_t (length (mBlocks (result_m this))))]) @ ''\<newline>'')"
  by (simp add: printResultAsJson_def jsonLoop_run uuid_nat)

lemma string_of_nat_1: "string_of_nat (Suc 0) = ''1''"
  by code_simp

lemma dump_prefix_one_block:
  assumes "mBlocks (result_m this) = [block]"
  shows "map_sum id (take 9) (printResultAsJson fmt this) = Inr ''    \"0_1\"''"
proof -
  have "nat (int_of_size_t (length (mBlocks (result_m this)))) = Suc 0"
    by (simp add: assms int_of_size_t_small)
  then show ?thesis
    by (simp add: printResultAsJson_run assms jsonEntry_def Let_def string_of_nat_1)
qed

subsection \<open>The identifiers of the text dump\<close>

text \<open>
  Claim C8, as amended. For every stored result, the text dump is the entries of the
  blocks in order, and the entry of the block at index \<open>i\<close> carries the identifier
  \<^verbatim>\<open>0_\<close> followed by \<open>i + 1\<close> in decimal: the prefix is the constant 0, the class keeps
  no cycle index. (The loop counts with an \<^verbatim>\<open>int\<close>; below \<open>2 ^ 31\<close> blocks it visits
  every block.)
\<close>

theorem block_identifier_is_zero_index_plus_one:
  "printResultAsJson fmt this =
     Inr (concat (map (\<lambda>i. jsonEntry fmt (''0_'' @ string_of_nat (i + 1)) (int i)
                          (mBlocks (result_m this) ! i))
            [0..<nat (int_of_size_t (length (mBlocks (result_m this))))]) @ ''\<newline>'') \<and>
   (length (mBlocks (result_m this)) < 2 ^ 31 \<longrightarrow>
      nat (int_of_size_t (length (mBlocks (result_m this)))) = length (mBlocks (result_m this)))"
proof (intro conjI impI)
  show "printResultAsJson fmt this =
     Inr (concat (map (\<lambda>i. jsonEntry fmt (''0_'' @ string_of_nat (i + 1)) (int i)
                          (mBlocks (result_m this) ! i))
            [0..<nat (int_of_size_t (length (mBlocks (result_m this))))]) @ ''\<newline>'')"
    by (rule printResultAsJson_run)
next
  assume "length (mBlocks (result_m this)) < 2 ^ 31"
  then show "nat (int_of_size_t (length (mBlocks (result_m this)))) = length (mBlocks (result_m this))"
    by (simp only: int_of_size_t_small nat_int)
qed

theorem block_identifier_is_zero_index_plus_one_witness:
  "length (mBlocks (result_m (RobotInterface_new\<lparr>result_m := \<lparr>mBlocks = [unitBlock]\<rparr>\<rparr>))) < 2 ^ 31 \<and>
   map_sum id (take 9)
     (printResultAsJson (\<lambda>v. ''0'') (RobotInterface_new\<lparr>result_m := \<lparr>mBlocks = [unitBlock]\<rparr>\<rparr>)) =
   Inr ''    \"0_1\"''"
  using block_identifier_is_zero_index_plus_one
    [of "\<lambda>v. ''0''" "RobotInterface_new\<lparr>result_m := \<lparr>mBlocks = [unitBlock]\<rparr>\<rparr>"]
  by (simp add: jsonEntry_def Let_def string_of_nat_1)

text \<open>
  Claim C8 as stated fails: after a first and after a second cycle the dump gives the
  first block the same identifier \<^verbatim>\<open>0_1\<close>, so its prefix is not the index of the
  current cycle.
\<close>

theorem identifier_ignores_the_cycle:
  "map_sum id (take 9)
     (then_do (cycles (pointCloudCallback oneBlockFitter) RobotInterface_new [[]])
        (printResultAsJson (\<lambda>v. ''0''))) = Inr ''    \"0_1\"'' \<and>
   map_sum id (take 9)
     (then_do (cycles (pointCloudCallback oneBlockFitter) RobotInterface_new [[], []])
        (printResultAsJson (\<lambda>v. ''0''))) = Inr ''    \"0_1\"''"
proof -
  have step: "\<exists>this'. processCloud oneBlockFitter this [] (0, 0, 0) (1, 0, 0) = Inr this' \<and>
      mBlocks (result_m this') = [unitBlock]"
    for this :: RobotInterface
    using processCloud_outcome [where go = oneBlockFitter and this = this and inCloud = "[]"
        and origin = "(0, 0, 0)" and lookDir = "(1, 0, 0)"]
    by (cases "processCloud oneBlockFitter this [] (0, 0, 0) (1, 0, 0)")
       (simp_all add: oneBlockFitter_def unitBlock_def)
  obtain t1 where t1: "processCloud oneBlockFitter RobotInterface_new [] (0, 0, 0) (1, 0, 0) = Inr t1"
      "mBlocks (result_m t1) = [unitBlock]"
    using step by blast
  obtain t2 where t2: "processCloud oneBlockFitter t1 [] (0, 0, 0) (1, 0, 0) = Inr t2"
      "mBlocks (result_m t2) = [unitBlock]"
    using step by blast
  have p: "last_robot_pose_m RobotInterface_new = Identity"
    by (simp add: RobotInterface_new_def)
  have one: "cycles (pointCloudCallback oneBlockFitter) RobotInterface_new [[]] = Inr t1"
    unfolding cycles_identity [OF p] by (simp add: t1)
  have two: "cycles (pointCloudCallback oneBlockFitter) RobotInterface_new [[], []] = Inr t2"
    unfolding cycles_identity [OF p] by (simp add: t1 t2)
  show ?thesis
    by (simp only: one two then_do_Inr dump_prefix_one_block [OF t1(2)]
        dump_prefix_one_block [OF t2(2)])
qed

end
